theory Spec2Isabelle
  imports Main
begin

section \<open>JavaScript values\<close>

text \<open>
  The handlers and middleware work on dynamically typed data: the decoded token
  attached to the request as \<^verbatim>\<open>req.user\<close>, and the JSON body of a request.
  Both are JSON values, to which JavaScript adds \<^verbatim>\<open>undefined\<close> for a property that
  is not there. Numbers are tested for truthiness only, so an integer stands for them.
\<close>

datatype jsval =
    JUndefined
  | JNull
  | JBool bool
  | JNum int
  | JStr string
  | JArr "jsval list"
  | JObj "(string \<times> jsval) list"

text \<open>The test \<^verbatim>\<open>!v\<close> is \<open>\<not> truthy v\<close>.\<close>

fun truthy :: "jsval \<Rightarrow> bool" where
  "truthy JUndefined = False"
| "truthy JNull = False"
| "truthy (JBool b) = b"
| "truthy (JNum n) = (n \<noteq> 0)"
| "truthy (JStr s) = (s \<noteq> [])"
| "truthy (JArr xs) = True"
| "truthy (JObj kvs) = True"

datatype js_error = Error string

text \<open>
  Property access \<^verbatim>\<open>v.k\<close> and \<^verbatim>\<open>v[k]\<close>: a TypeError on \<^verbatim>\<open>undefined\<close> and
  \<^verbatim>\<open>null\<close>, the own property of an object, and \<^verbatim>\<open>undefined\<close> for a key that is
  not there. Properties inherited from the built-in prototypes
  (\<^verbatim>\<open>toString\<close>, \<^verbatim>\<open>length\<close>, ...) are not modelled; none of the keys read by
  this program (\<^verbatim>\<open>role\<close>, \<^verbatim>\<open>permissions\<close>, the four permission names, the body
  fields) is one of them.
\<close>

fun getProp :: "jsval \<Rightarrow> string \<Rightarrow> js_error + jsval" where
  "getProp JUndefined k = Inl (Error ''TypeError'')"
| "getProp JNull k = Inl (Error ''TypeError'')"
| "getProp (JObj kvs) k = Inr (case map_of kvs k of Some v \<Rightarrow> v | None \<Rightarrow> JUndefined)"
| "getProp v k = Inr JUndefined"

section \<open>Requests, responses, middleware outcomes\<close>

record request =
  authorization :: "string option"
  cookie_token :: "string option"
  user :: jsval
  params_id :: string
  body :: jsval

record response =
  status :: nat
  json :: "(string \<times> jsval) list"
  set_cookie :: "string option"

text \<open>
  A middleware either calls \<^verbatim>\<open>next()\<close> with the (possibly updated) request, or
  sends a response, or throws.
\<close>

datatype outcome = Next request | Respond response | Throws js_error

definition reply :: "nat \<Rightarrow> string \<Rightarrow> response" where
  "reply code msg = \<lparr>status = code, json = [(''message'', JStr msg)], set_cookie = None\<rparr>"

definition permission_names :: "string list" where
  "permission_names = [''dashboard'', ''collegeManagement'', ''contentEditing'', ''viewData'']"

section \<open>middleware/rbac.js\<close>


definition permission_required :: "string \<Rightarrow> string" where
  "permission_required permission =
     ''Access denied: '' @ [CHR 0x27] @ permission @ [CHR 0x27] @ '' permission required''"

definition checkPermission :: "string \<Rightarrow> request \<Rightarrow> outcome" where
  "checkPermission permission req =
     (if \<not> truthy (user req) then Respond (reply 401 ''Authentication required'')
      else
        (case getProp (user req) ''role'' of
           Inl e \<Rightarrow> Throws e
         | Inr r \<Rightarrow>
             if r = JStr ''admin'' then Next req
             else
               (case getProp (user req) ''permissions'' of
                  Inl e \<Rightarrow> Throws e
                | Inr p \<Rightarrow>
                    if \<not> truthy p then Respond (reply 403 (permission_required permission))
                    else
                      (case getProp p permission of
                         Inl e \<Rightarrow> Throws e
                       | Inr v \<Rightarrow>
                           if \<not> truthy v
                           then Respond (reply 403 (permission_required permission))
                           else Next req))))"

section \<open>The user model\<close>

text \<open>
  A stored user document, as the handlers see it through the model \<^verbatim>\<open>User\<close>:
  \<open>uid\<close> is the field \<^verbatim>\<open>_id\<close>, \<open>password\<close> holds the stored derivation of the
  secret, \<open>permissions\<close> is the nested permissions object.
\<close>

record User =
  uid :: string
  name :: string
  email :: string
  password :: string
  role :: string
  permissions :: "(string \<times> jsval) list"

text \<open>
  What the program takes from its libraries and from the user model's methods:
  signing and verifying a token (\<^verbatim>\<open>jwt.sign\<close> and \<^verbatim>\<open>jwt.verify\<close> with the
  configured secret and lifetime; \<open>None\<close> when verification throws), the one-way
  derivation of a secret, the method \<^verbatim>\<open>comparePassword\<close>, and the identifier the
  store assigns to a new document. The identifier \<^verbatim>\<open>_id\<close> is an ObjectId, the
  library's default: a filter on \<^verbatim>\<open>_id\<close> first casts the given string with
  \<open>castObjectId\<close>, which throws for a string that is not an identifier. In an
  update, \<open>castString\<close> and \<open>castPermissions\<close> are the library's casts of a value
  that does not have the type of its schema field; they may throw as well.
\<close>

record env =
  jwt_sign :: "jsval \<Rightarrow> string"
  jwt_verify :: "string \<Rightarrow> jsval option"
  derive :: "string \<Rightarrow> string"
  comparePassword :: "User \<Rightarrow> jsval \<Rightarrow> js_error + bool"
  newId :: "User list \<Rightarrow> string"
  castObjectId :: "string \<Rightarrow> js_error + string"
  castString :: "jsval \<Rightarrow> js_error + string"
  castPermissions :: "jsval \<Rightarrow> js_error + (string \<times> jsval) list"

text \<open>
  Modelled from the spec: the schema in \<^verbatim>\<open>models/User.js\<close> is not among the
  sources. The spec gives \<open>permissions\<close> a fixed shape of four flags, each taken from
  the input when the input sets it and \<^verbatim>\<open>false\<close> otherwise, whatever the shape of
  the input.
\<close>

definition schemaPermissions :: "jsval \<Rightarrow> (string \<times> jsval) list" where
  "schemaPermissions input =
     map (\<lambda>k. (k, case input of
                     JObj kvs \<Rightarrow> (case map_of kvs k of Some v \<Rightarrow> v | None \<Rightarrow> JBool False)
                   | _ \<Rightarrow> JBool False))
         permission_names"

text \<open>
  Modelled from the spec: the schema in \<^verbatim>\<open>models/User.js\<close> is not among the
  sources. The spec makes \<open>name\<close>, \<open>email\<close> and the secret required strings.
\<close>

definition requiredString :: "jsval \<Rightarrow> string option" where
  "requiredString v = (case v of JStr s \<Rightarrow> (if s = [] then None else Some s) | _ \<Rightarrow> None)"

text \<open>
  Modelled from the spec: \<^verbatim>\<open>new User({...})\<close> followed by \<^verbatim>\<open>save()\<close>, of the
  model in \<^verbatim>\<open>models/User.js\<close> that is not among the sources. The document is
  rejected (the call throws) when a required field is missing or the email is already
  in use; otherwise it is stored with a new identifier and the derived secret.
\<close>

definition save ::
  "env \<Rightarrow> User list \<Rightarrow> jsval \<Rightarrow> jsval \<Rightarrow> jsval \<Rightarrow> string \<Rightarrow> jsval \<Rightarrow> js_error + User \<times> User list"
where
  "save env db n e p r perms =
     (case (requiredString n, requiredString e, requiredString p) of
        (Some n', Some e', Some p') \<Rightarrow>
          if e' \<in> set (map email db) then Inl (Error ''duplicate key'')
          else
            let u = \<lparr>uid = newId env db, name = n', email = e', password = derive env p',
                     role = r, permissions = schemaPermissions perms\<rparr>
            in Inr (u, db @ [u])
      | _ \<Rightarrow> Inl (Error ''User validation failed''))"

text \<open>
  Queries. \<^verbatim>\<open>findOne\<close> returns the first document that satisfies the filter. A
  filter value is compared as a string; query operators are not modelled.
\<close>

definition findOne :: "(User \<Rightarrow> bool) \<Rightarrow> User list \<Rightarrow> User option" where
  "findOne q db = find q db"

definition byEmail :: "jsval \<Rightarrow> User \<Rightarrow> bool" where
  "byEmail v u = (v = JStr (email u))"

definition byIdRole :: "string \<Rightarrow> string \<Rightarrow> User \<Rightarrow> bool" where
  "byIdRole i r u = (uid u = i \<and> role u = r)"

fun deleteFirst :: "(User \<Rightarrow> bool) \<Rightarrow> User list \<Rightarrow> User list" where
  "deleteFirst q [] = []"
| "deleteFirst q (u # us) = (if q u then us else u # deleteFirst q us)"

text \<open>
  \<^verbatim>\<open>findOneAndDelete({ _id, role })\<close>: the cast of the identifier may throw;
  otherwise the first document with that identifier and role is removed and returned.
\<close>

definition findOneAndDelete ::
  "env \<Rightarrow> string \<Rightarrow> string \<Rightarrow> User list \<Rightarrow> js_error + User option \<times> User list"
where
  "findOneAndDelete env i r db =
     (case castObjectId env i of
        Inl err \<Rightarrow> Inl err
      | Inr i' \<Rightarrow> Inr (findOne (byIdRole i' r) db, deleteFirst (byIdRole i' r) db))"

text \<open>\<^verbatim>\<open>findOne({ _id, role })\<close>, with the same cast.\<close>

definition findOneByIdRole ::
  "env \<Rightarrow> string \<Rightarrow> string \<Rightarrow> User list \<Rightarrow> js_error + User option"
where
  "findOneByIdRole env i r db =
     (case castObjectId env i of
        Inl err \<Rightarrow> Inl err
      | Inr i' \<Rightarrow> Inr (findOne (byIdRole i' r) db))"


text \<open>
  The update \<^verbatim>\<open>{ $set: { name, email, permissions } }\<close> with validators: a key whose
  value is \<^verbatim>\<open>undefined\<close> is dropped from the update by the library (Mongoose, from
  version 6 on) before it is sent, so the field keeps its value. A string is checked as
  the schema says (required, so not empty); a permissions object whose keys are
  permission names and whose values are booleans is read as the schema says. Any
  other value goes through the library's cast. No other field of the document is named
  by the update.
\<close>

definition setString :: "env \<Rightarrow> jsval \<Rightarrow> string \<Rightarrow> js_error + string" where
  "setString env v old =
     (case v of
        JUndefined \<Rightarrow> Inr old
      | JNull \<Rightarrow> Inl (Error ''Validation failed'')
      | JStr s \<Rightarrow> (if s = [] then Inl (Error ''Validation failed'') else Inr s)
      | _ \<Rightarrow> castString env v)"





text \<open>The document without its secret, as \<^verbatim>\<open>select("-password")\<close> returns it.\<close>

definition withoutPassword :: "User \<Rightarrow> jsval" where
  "withoutPassword u =
     JObj [(''_id'', JStr (uid u)), (''name'', JStr (name u)), (''email'', JStr (email u)),
           (''role'', JStr (role u)), (''permissions'', JObj (permissions u))]"

section \<open>middleware/auth.js\<close>

definition generateToken :: "env \<Rightarrow> User \<Rightarrow> string" where
  "generateToken env u =
     jwt_sign env (JObj [(''id'', JStr (uid u)), (''email'', JStr (email u)),
                         (''role'', JStr (role u)), (''permissions'', JObj (permissions u))])"

text \<open>\<^verbatim>\<open>s.split(" ")\<close>: the pieces of \<open>s\<close> between single spaces, empty pieces kept.\<close>

fun split_on :: "char \<Rightarrow> string \<Rightarrow> string list" where
  "split_on sep [] = [[]]"
| "split_on sep (c # cs) =
     (if c = sep then [] # split_on sep cs
      else (case split_on sep cs of w # ws \<Rightarrow> (c # w) # ws | [] \<Rightarrow> [[c]]))"

text \<open>
  The candidate token: \<^verbatim>\<open>req.headers.authorization?.split(" ")[1] || req.cookies.token\<close>.
  \<open>None\<close> is \<^verbatim>\<open>undefined\<close>; the empty string is falsy as well.
\<close>

definition headerToken :: "request \<Rightarrow> string option" where
  "headerToken req =
     (case authorization req of
        None \<Rightarrow> None
      | Some h \<Rightarrow> (case split_on CHR '' '' h of a # t # rest \<Rightarrow> Some t | _ \<Rightarrow> None))"

definition candidateToken :: "request \<Rightarrow> string option" where
  "candidateToken req =
     (case headerToken req of
        Some t \<Rightarrow> (if t \<noteq> [] then Some t else cookie_token req)
      | None \<Rightarrow> cookie_token req)"

definition verifyToken :: "env \<Rightarrow> request \<Rightarrow> outcome" where
  "verifyToken env req =
     (case candidateToken req of
        None \<Rightarrow> Respond (reply 401 ''Authentication required'')
      | Some token \<Rightarrow>
          if token = [] then Respond (reply 401 ''Authentication required'')
          else (case jwt_verify env token of
                  Some decoded \<Rightarrow> Next (req\<lparr>user := decoded\<rparr>)
                | None \<Rightarrow> Respond (reply 401 ''Invalid or expired token'')))"

section \<open>routes/auth.js\<close>

text \<open>
  A handler takes the store and the request and gives the response and the store
  afterwards. The body of its \<^verbatim>\<open>try\<close> block is a computation that may throw;
  \<open>catch500\<close> is the \<^verbatim>\<open>catch\<close> clause, which answers 500 with the error's message.
\<close>

definition andThen :: "js_error + 'a \<Rightarrow> ('a \<Rightarrow> js_error + 'b) \<Rightarrow> js_error + 'b" where
  "andThen m f = (case m of Inl e \<Rightarrow> Inl e | Inr x \<Rightarrow> f x)"

definition catch500 :: "User list \<Rightarrow> js_error + response \<times> User list \<Rightarrow> response \<times> User list" where
  "catch500 db r = (case r of Inl (Error msg) \<Rightarrow> (reply 500 msg, db) | Inr x \<Rightarrow> x)"

definition admin_signup :: "env \<Rightarrow> User list \<Rightarrow> request \<Rightarrow> response \<times> User list" where
  "admin_signup env db req = catch500 db
     (case findOne (\<lambda>u. role u = ''admin'') db of
        Some adminExists \<Rightarrow> Inr (reply 400 ''Admin account already exists'', db)
      | None \<Rightarrow>
          andThen (getProp (body req) ''name'') (\<lambda>n.
          andThen (getProp (body req) ''email'') (\<lambda>e.
          andThen (getProp (body req) ''password'') (\<lambda>p.
          andThen (save env db n e p ''admin''
                     (JObj [(''dashboard'', JBool True), (''collegeManagement'', JBool True),
                            (''contentEditing'', JBool True), (''viewData'', JBool True)]))
            (\<lambda>(admin, db').
               Inr (\<lparr>status = 201,
                     json = [(''message'', JStr ''Admin account created successfully''),
                             (''token'', JStr (generateToken env admin))],
                     set_cookie = None\<rparr>, db'))))))"

definition login :: "env \<Rightarrow> User list \<Rightarrow> request \<Rightarrow> response \<times> User list" where
  "login env db req = catch500 db
     (andThen (getProp (body req) ''email'') (\<lambda>e.
      andThen (getProp (body req) ''password'') (\<lambda>p.
        case findOne (byEmail e) db of
          None \<Rightarrow> Inr (reply 401 ''Invalid credentials'', db)
        | Some u \<Rightarrow>
            andThen (comparePassword env u p) (\<lambda>isMatch.
              if \<not> isMatch then Inr (reply 401 ''Invalid credentials'', db)
              else
                let token = generateToken env u
                in Inr (\<lparr>status = 200,
                         json = [(''message'', JStr ''Login successful''),
                                 (''user'', JObj [(''id'', JStr (uid u)), (''name'', JStr (name u)),
                                                  (''email'', JStr (email u)),
                                                  (''role'', JStr (role u)),
                                                  (''permissions'', JObj (permissions u))]),
                                 (''token'', JStr token)],
                         set_cookie = Some token\<rparr>, db)))))"

section \<open>routes/admin.js\<close>

definition create_sub_admin :: "env \<Rightarrow> User list \<Rightarrow> request \<Rightarrow> response \<times> User list" where
  "create_sub_admin env db req = catch500 db
     (andThen (getProp (body req) ''name'') (\<lambda>n.
      andThen (getProp (body req) ''email'') (\<lambda>e.
      andThen (getProp (body req) ''password'') (\<lambda>p.
      andThen (getProp (body req) ''permissions'') (\<lambda>perms.
        case findOne (byEmail e) db of
          Some userExists \<Rightarrow> Inr (reply 400 ''Email already in use'', db)
        | None \<Rightarrow>
            andThen (save env db n e p ''sub-admin'' (if truthy perms then perms else JObj []))
              (\<lambda>(subAdmin, db').
                 Inr (\<lparr>status = 201,
                       json = [(''message'', JStr ''Sub-admin created successfully''),
                               (''subAdmin'',
                                JObj [(''id'', JStr (uid subAdmin)),
                                      (''name'', JStr (name subAdmin)),
                                      (''email'', JStr (email subAdmin)),
                                      (''permissions'', JObj (permissions subAdmin))])],
                       set_cookie = None\<rparr>, db')))))))"

definition get_sub_admin :: "env \<Rightarrow> User list \<Rightarrow> request \<Rightarrow> response \<times> User list" where
  "get_sub_admin env db req = catch500 db
     (andThen (findOneByIdRole env (params_id req) ''sub-admin'' db) (\<lambda>found.
        case found of
          None \<Rightarrow> Inr (reply 404 ''Sub-admin not found'', db)
        | Some subAdmin \<Rightarrow>
            Inr (\<lparr>status = 200, json = [(''subAdmin'', withoutPassword subAdmin)],
                  set_cookie = None\<rparr>, db)))"


definition delete_sub_admin :: "env \<Rightarrow> User list \<Rightarrow> request \<Rightarrow> response \<times> User list" where
  "delete_sub_admin env db req = catch500 db
     (andThen (findOneAndDelete env (params_id req) ''sub-admin'' db)
        (\<lambda>(found, db').
           case found of
             None \<Rightarrow> Inr (reply 404 ''Sub-admin not found'', db')
           | Some subAdmin \<Rightarrow> Inr (reply 200 ''Sub-admin deleted successfully'', db')))"

section \<open>Notions used in the properties\<close>

text \<open>
  The flag \<^verbatim>\<open>context.permissions[name]\<close> of an identity context, where that
  expression has a value: there is none when the context has no permissions record to
  read from.
\<close>

definition contextFlag :: "jsval \<Rightarrow> string \<Rightarrow> jsval option" where
  "contextFlag ctx k =
     (case getProp ctx ''permissions'' of
        Inl e \<Rightarrow> None
      | Inr p \<Rightarrow> (case getProp p k of Inl e \<Rightarrow> None | Inr v \<Rightarrow> Some v))"

text \<open>A flag of the data model is a boolean, or is not set.\<close>

fun booleanOrUnset :: "jsval option \<Rightarrow> bool" where
  "booleanOrUnset None = True"
| "booleanOrUnset (Some JUndefined) = True"
| "booleanOrUnset (Some (JBool b)) = True"
| "booleanOrUnset (Some v) = False"


text \<open>
  The token source as the specification words it: the token of an
  \<^verbatim>\<open>Authorization: Bearer <token>\<close> header when the request has one, the cookie
  otherwise.
\<close>

definition bearerOrCookie :: "request \<Rightarrow> string option" where
  "bearerOrCookie req =
     (case authorization req of
        None \<Rightarrow> cookie_token req
      | Some h \<Rightarrow>
          if take 7 h = ''Bearer '' \<and> drop 7 h \<noteq> [] then Some (drop 7 h)
          else cookie_token req)"

text \<open>
  A response returns a user when one of its fields is an object that carries the
  user's identifier, as the \<^verbatim>\<open>user\<close> field of the login response and the
  \<^verbatim>\<open>subAdmin\<close> field of the sub-admin responses do.
\<close>

definition returnsUser :: "response \<Rightarrow> User \<Rightarrow> bool" where
  "returnsUser r u =
     list_ex (\<lambda>(k, v). case v of
                          JObj kvs \<Rightarrow> map_of kvs ''id'' = Some (JStr (uid u))
                                      \<or> map_of kvs ''_id'' = Some (JStr (uid u))
                        | _ \<Rightarrow> False)
             (json r)"

definition allTrue :: "(string \<times> jsval) list" where
  "allTrue = [(''dashboard'', JBool True), (''collegeManagement'', JBool True),
              (''contentEditing'', JBool True), (''viewData'', JBool True)]"

text \<open>Whether the body of a creation request sets the permission \<open>k\<close>.\<close>

definition callerSets :: "jsval \<Rightarrow> string \<Rightarrow> bool" where
  "callerSets b k =
     (case getProp b ''permissions'' of
        Inr (JObj kvs) \<Rightarrow> map_of kvs k \<noteq> None
      | _ \<Rightarrow> False)"



subsection \<open>Concrete inputs\<close>

definition example_env :: env where
  "example_env =
     \<lparr>jwt_sign = (\<lambda>payload. ''signed''),
      jwt_verify = (\<lambda>t. if t = ''good'' then Some (JObj [(''role'', JStr ''sub-admin'')])
                          else None),
      derive = (\<lambda>s. ''#'' @ s),
      comparePassword = (\<lambda>u p. Inr (p = JStr (drop 1 (password u)))),
      newId = (\<lambda>db. ''00000000000000000000000'' @ [''123456789abcdef'' ! (length db mod 15)]),
      castObjectId = (\<lambda>i. if length i = 24 \<and> list_all (\<lambda>c. c \<in> set ''0123456789abcdef'') i
                             then Inr i else Inl (Error ''Cast to ObjectId failed'')),
      castString = (\<lambda>v. case v of
                            JBool b \<Rightarrow> Inr (if b then ''true'' else ''false'')
                          | _ \<Rightarrow> Inl (Error ''Cast to string failed'')),
      castPermissions = (\<lambda>v. Inl (Error ''Cast to Boolean failed''))\<rparr>"

definition example_request :: request where
  "example_request =
     \<lparr>authorization = None, cookie_token = None, user = JUndefined, params_id = [],
      body = JObj []\<rparr>"

definition example_admin :: User where
  "example_admin =
     \<lparr>uid = ''000000000000000000000001'', name = ''Admin'', email = ''admin@example.com'', password = ''#Admin@123'',
      role = ''admin'', permissions = allTrue\<rparr>"

definition example_sub :: User where
  "example_sub =
     \<lparr>uid = ''000000000000000000000002'', name = ''Sub'', email = ''sub1@example.com'', password = ''#Sub@123'',
      role = ''sub-admin'',
      permissions = [(''dashboard'', JBool True), (''collegeManagement'', JBool False),
                     (''contentEditing'', JBool False), (''viewData'', JBool False)]\<rparr>"

definition signup_body :: jsval where
  "signup_body =
     JObj [(''name'', JStr ''Admin''), (''email'', JStr ''admin@example.com''),
           (''password'', JStr ''Admin@123'')]"

definition sub_admin_body :: jsval where
  "sub_admin_body =
     JObj [(''name'', JStr ''Sub''), (''email'', JStr ''sub1@example.com''),
           (''password'', JStr ''Sub@123''),
           (''permissions'', JObj [(''dashboard'', JBool True)])]"


section \<open>Properties of the authorization gate\<close>

lemma getProp_truthy: "truthy v \<Longrightarrow> \<exists>x. getProp v k = Inr x"
  by (cases v) simp_all

text \<open>
  C1. A request whose identity context has role \<^verbatim>\<open>admin\<close> passes
  \<^verbatim>\<open>checkPermission\<close> for every permission name, whatever the context holds
  under \<^verbatim>\<open>permissions\<close> (flags false, record absent, any value at all): the role
  test comes first and decides alone.
\<close>

theorem checkPermission_admin_bypass:
  assumes "truthy (user req)"
    and "getProp (user req) ''role'' = Inr (JStr ''admin'')"
  shows "checkPermission permission req = Next req"
  using assms by (simp add: checkPermission_def)

theorem checkPermission_admin_bypass_witness:
  "checkPermission ''dashboard''
     (example_request\<lparr>user := JObj [(''role'', JStr ''admin''),
                                   (''permissions'', JObj [(''dashboard'', JBool False)])]\<rparr>)
   = Next (example_request\<lparr>user := JObj [(''role'', JStr ''admin''),
                                   (''permissions'', JObj [(''dashboard'', JBool False)])]\<rparr>)"
  by (rule checkPermission_admin_bypass) simp_all

lemma checkPermission_non_admin_truthy:
  assumes "truthy (user req)"
    and "getProp (user req) ''role'' = Inr r" and "r \<noteq> JStr ''admin''"
  shows "checkPermission k req =
           (if (\<exists>v. contextFlag (user req) k = Some v \<and> truthy v) then Next req
            else Respond (reply 403 (permission_required k)))"
proof -
  obtain p where p: "getProp (user req) ''permissions'' = Inr p"
    using getProp_truthy [OF assms(1)] by blast
  show ?thesis
  proof (cases "truthy p")
    case False
    then have "\<And>v. getProp p k = Inr v \<Longrightarrow> \<not> truthy v"
      by (cases p) auto
    with False p assms show ?thesis
      by (auto simp: checkPermission_def contextFlag_def split: sum.splits)
  next
    case True
    then obtain v where "getProp p k = Inr v"
      using getProp_truthy by blast
    with True p assms show ?thesis
      by (simp add: checkPermission_def contextFlag_def)
  qed
qed

lemma truthy_flag: "booleanOrUnset (Some v) \<Longrightarrow> truthy v = (v = JBool True)"
  by (cases v) auto

text \<open>
  C2. For an identity context whose role is not \<^verbatim>\<open>admin\<close>, and a permission name
  whose flag in the context is a boolean or is not set (the permissions record itself
  may be missing), \<^verbatim>\<open>checkPermission\<close> answers 403 exactly when the flag is not
  \<^verbatim>\<open>true\<close>, and lets the request pass otherwise.
\<close>

theorem checkPermission_non_admin:
  assumes "truthy (user req)"
    and "getProp (user req) ''role'' = Inr r" and "r \<noteq> JStr ''admin''"
    and "k \<in> set permission_names"
    and "booleanOrUnset (contextFlag (user req) k)"
  shows "checkPermission k req =
           (if contextFlag (user req) k = Some (JBool True) then Next req
            else Respond (reply 403 (permission_required k)))"
proof -
  have "(\<exists>v. contextFlag (user req) k = Some v \<and> truthy v)
          = (contextFlag (user req) k = Some (JBool True))"
    using assms(5) by (cases "contextFlag (user req) k") (auto simp: truthy_flag)
  then show ?thesis
    using checkPermission_non_admin_truthy [OF assms(1-3)] by simp
qed

theorem checkPermission_non_admin_witness:
  "checkPermission ''viewData''
     (example_request\<lparr>user := JObj [(''role'', JStr ''sub-admin''),
                                   (''permissions'', JObj [(''viewData'', JBool False)])]\<rparr>)
   = Respond (reply 403 ''Access denied: 'viewData' permission required'')
   \<and> checkPermission ''viewData''
     (example_request\<lparr>user := JObj [(''role'', JStr ''sub-admin''),
                                   (''permissions'', JObj [(''viewData'', JBool True)])]\<rparr>)
   = Next (example_request\<lparr>user := JObj [(''role'', JStr ''sub-admin''),
                                   (''permissions'', JObj [(''viewData'', JBool True)])]\<rparr>)"
  using checkPermission_non_admin
          [of "example_request\<lparr>user := JObj [(''role'', JStr ''sub-admin''),
                 (''permissions'', JObj [(''viewData'', JBool False)])]\<rparr>"
              "JStr ''sub-admin''" "''viewData''"]
        checkPermission_non_admin
          [of "example_request\<lparr>user := JObj [(''role'', JStr ''sub-admin''),
                 (''permissions'', JObj [(''viewData'', JBool True)])]\<rparr>"
              "JStr ''sub-admin''" "''viewData''"]
  by (simp add: contextFlag_def permission_names_def permission_required_def)

text \<open>
  C10. For an identity context whose role is not \<^verbatim>\<open>admin\<close> and that has no
  \<^verbatim>\<open>permissions\<close> field at all, \<^verbatim>\<open>checkPermission\<close> answers 403 for every
  permission name; it does not throw.
\<close>

theorem checkPermission_no_permissions:
  assumes "user req = JObj ctx"
    and "map_of ctx ''role'' \<noteq> Some (JStr ''admin'')"
    and "map_of ctx ''permissions'' = None"
  shows "checkPermission k req = Respond (reply 403 (permission_required k))"
  using assms by (auto simp: checkPermission_def split: option.splits)

theorem checkPermission_no_permissions_witness:
  "checkPermission ''dashboard'' (example_request\<lparr>user := JObj [(''role'', JStr ''sub-admin'')]\<rparr>)
     = Respond (reply 403 (permission_required ''dashboard''))"
  by (rule checkPermission_no_permissions [where ctx = "[(''role'', JStr ''sub-admin'')]"])
     (simp_all add: example_request_def)

section \<open>Properties of the authentication gate\<close>

lemma split_on_no_sep: "sep \<notin> set t \<Longrightarrow> split_on sep t = [t]"
  by (induction t) auto

lemma split_on_first:
  "sep \<notin> set a \<Longrightarrow> split_on sep (a @ sep # t) = a # split_on sep t"
  by (induction a) auto

lemma headerToken_scheme:
  assumes "authorization req = Some (scheme @ '' '' @ t)"
    and "CHR '' '' \<notin> set scheme" and "CHR '' '' \<notin> set t"
  shows "headerToken req = Some t"
proof -
  have "split_on CHR '' '' (scheme @ CHR '' '' # t) = [scheme, t]"
    using assms(2,3) by (simp add: split_on_first split_on_no_sep)
  with assms(1) show ?thesis by (simp add: headerToken_def)
qed

lemma candidateToken_header:
  assumes "authorization req = Some (scheme @ '' '' @ t)"
    and "CHR '' '' \<notin> set scheme" and "CHR '' '' \<notin> set t" and "t \<noteq> []"
  shows "candidateToken req = Some t"
  using headerToken_scheme [OF assms(1-3)] assms(4) by (simp add: candidateToken_def)

lemma candidateToken_cookie:
  "authorization req = None \<Longrightarrow> candidateToken req = cookie_token req"
  by (simp add: candidateToken_def headerToken_def)

text \<open>
  C6, as amended. The candidate token is the second space-separated field of the
  Authorization header (\<open>headerToken\<close>) when that field is there and not empty,
  whatever the scheme word before it (so \<^verbatim>\<open><token>\<close> for \<^verbatim>\<open>Bearer <token>\<close>),
  and the cookie \<^verbatim>\<open>token\<close> otherwise, as when the request has no Authorization
  header or one without a space. Without a candidate the gate answers 401
  \<^verbatim>\<open>Authentication required\<close>; when the candidate does not verify it answers 401
  \<^verbatim>\<open>Invalid or expired token\<close>; otherwise the decoded claims become
  \<^verbatim>\<open>req.user\<close>. The gate takes no store.
\<close>

theorem verifyToken_contract:
  "(authorization req = Some (scheme @ '' '' @ t) \<and> CHR '' '' \<notin> set scheme
       \<and> CHR '' '' \<notin> set t \<and> t \<noteq> [] \<longrightarrow> candidateToken req = Some t)
   \<and> (authorization req = Some scheme \<and> CHR '' '' \<notin> set scheme \<longrightarrow>
         candidateToken req = cookie_token req)
   \<and> (authorization req = None \<longrightarrow> candidateToken req = cookie_token req)
   \<and> (candidateToken req = None \<or> candidateToken req = Some [] \<longrightarrow>
         verifyToken env req = Respond (reply 401 ''Authentication required''))
   \<and> (candidateToken req = Some t \<and> t \<noteq> [] \<and> jwt_verify env t = None \<longrightarrow>
         verifyToken env req = Respond (reply 401 ''Invalid or expired token''))
   \<and> (candidateToken req = Some t \<and> t \<noteq> [] \<and> jwt_verify env t = Some decoded \<longrightarrow>
         verifyToken env req = Next (req\<lparr>user := decoded\<rparr>))
   \<and> (headerToken req = Some t \<and> t \<noteq> [] \<longrightarrow> candidateToken req = Some t)
   \<and> (headerToken req = None \<or> headerToken req = Some [] \<longrightarrow>
         candidateToken req = cookie_token req)"
proof (intro conjI impI)
  assume "authorization req = Some (scheme @ '' '' @ t) \<and> CHR '' '' \<notin> set scheme
       \<and> CHR '' '' \<notin> set t \<and> t \<noteq> []"
  then show "candidateToken req = Some t"
    using candidateToken_header by blast
next
  assume "authorization req = Some scheme \<and> CHR '' '' \<notin> set scheme"
  then show "candidateToken req = cookie_token req"
    by (simp add: candidateToken_def headerToken_def split_on_no_sep)
next
  assume "authorization req = None"
  then show "candidateToken req = cookie_token req"
    by (rule candidateToken_cookie)
next
  assume "candidateToken req = None \<or> candidateToken req = Some []"
  then show "verifyToken env req = Respond (reply 401 ''Authentication required'')"
    by (auto simp: verifyToken_def)
next
  assume "candidateToken req = Some t \<and> t \<noteq> [] \<and> jwt_verify env t = None"
  then show "verifyToken env req = Respond (reply 401 ''Invalid or expired token'')"
    by (simp add: verifyToken_def)
next
  assume "candidateToken req = Some t \<and> t \<noteq> [] \<and> jwt_verify env t = Some decoded"
  then show "verifyToken env req = Next (req\<lparr>user := decoded\<rparr>)"
    by (simp add: verifyToken_def)
next
  assume "headerToken req = Some t \<and> t \<noteq> []"
  then show "candidateToken req = Some t"
    by (simp add: candidateToken_def)
next
  assume "headerToken req = None \<or> headerToken req = Some []"
  then show "candidateToken req = cookie_token req"
    by (auto simp: candidateToken_def)
qed

theorem verifyToken_contract_witness:
  "candidateToken (example_request\<lparr>authorization := Some ''Bearer good'',
                                     cookie_token := Some ''other''\<rparr>) = Some ''good''
   \<and> verifyToken example_env (example_request\<lparr>authorization := Some ''Bearer good'',
                                     cookie_token := Some ''other''\<rparr>)
       = Next (example_request\<lparr>authorization := Some ''Bearer good'',
                 cookie_token := Some ''other'', user := JObj [(''role'', JStr ''sub-admin'')]\<rparr>)
   \<and> candidateToken (example_request\<lparr>cookie_token := Some ''bad''\<rparr>) = Some ''bad''
   \<and> verifyToken example_env (example_request\<lparr>cookie_token := Some ''bad''\<rparr>)
       = Respond (reply 401 ''Invalid or expired token'')
   \<and> verifyToken example_env example_request = Respond (reply 401 ''Authentication required'')"
  using verifyToken_contract
          [of "example_request\<lparr>authorization := Some ''Bearer good'',
                 cookie_token := Some ''other''\<rparr>" "''Bearer''" "''good''" example_env
              "JObj [(''role'', JStr ''sub-admin'')]"]
        verifyToken_contract
          [of "example_request\<lparr>cookie_token := Some ''bad''\<rparr>" "''Bearer''" "''bad''"
              example_env JNull]
        verifyToken_contract [of example_request "''Bearer''" "''x''" example_env JNull]
  by (simp add: example_request_def example_env_def)

text \<open>
  C6, as stated, fails: with the header \<^verbatim>\<open>Authorization: Basic xyz\<close> and a valid
  token cookie the request has no Bearer header, yet the candidate is \<^verbatim>\<open>xyz\<close>,
  not the cookie, and the request is rejected.
\<close>

theorem verifyToken_scheme_counterexample:
  "bearerOrCookie (example_request\<lparr>authorization := Some ''Basic xyz'',
                                     cookie_token := Some ''good''\<rparr>) = Some ''good''
   \<and> candidateToken (example_request\<lparr>authorization := Some ''Basic xyz'',
                                     cookie_token := Some ''good''\<rparr>) = Some ''xyz''
   \<and> jwt_verify example_env ''good'' \<noteq> None
   \<and> verifyToken example_env (example_request\<lparr>authorization := Some ''Basic xyz'',
                                     cookie_token := Some ''good''\<rparr>)
       = Respond (reply 401 ''Invalid or expired token'')"
  by (simp add: bearerOrCookie_def candidateToken_def headerToken_def example_request_def
        verifyToken_def example_env_def)

section \<open>Failure messages\<close>









section \<open>Properties of login and admin signup\<close>

lemma andThen_Inr [simp]: "andThen (Inr x) f = f x"
  by (simp add: andThen_def)

lemma andThen_Inl [simp]: "andThen (Inl e) f = Inl e"
  by (simp add: andThen_def)

lemma catch500_Inr [simp]: "catch500 db (Inr x) = x"
  by (simp add: catch500_def)

lemma catch500_Inl [simp]: "catch500 db (Inl (Error m)) = (reply 500 m, db)"
  by (simp add: catch500_def)

text \<open>
  C4. Of two login requests against the same store, one with an email that no record
  has and one with the email of a record whose secret the supplied one does not match,
  both get the response 401 \<^verbatim>\<open>Invalid credentials\<close>, the same in status and in
  message, and the store stays as it was.
\<close>

theorem login_failures_indistinguishable:
  assumes "getProp (body req1) ''email'' = Inr e1" and "getProp (body req1) ''password'' = Inr p1"
    and "getProp (body req2) ''email'' = Inr e2" and "getProp (body req2) ''password'' = Inr p2"
    and "findOne (byEmail e1) db = None"
    and "findOne (byEmail e2) db = Some u" and "comparePassword env u p2 = Inr False"
  shows "login env db req1 = (reply 401 ''Invalid credentials'', db)
       \<and> login env db req2 = (reply 401 ''Invalid credentials'', db)"
  using assms by (simp add: login_def)

theorem login_failures_indistinguishable_witness:
  "login example_env [example_admin]
     (example_request\<lparr>body := JObj [(''email'', JStr ''nobody@example.com''),
                                   (''password'', JStr ''Admin@123'')]\<rparr>)
     = (reply 401 ''Invalid credentials'', [example_admin])
   \<and> login example_env [example_admin]
     (example_request\<lparr>body := JObj [(''email'', JStr ''admin@example.com''),
                                   (''password'', JStr ''wrong'')]\<rparr>)
     = (reply 401 ''Invalid credentials'', [example_admin])"
  by (rule login_failures_indistinguishable
        [where ?e1.0 = "JStr ''nobody@example.com''" and ?p1.0 = "JStr ''Admin@123''"
           and ?e2.0 = "JStr ''admin@example.com''" and ?p2.0 = "JStr ''wrong''"
           and u = example_admin])
     (simp_all add: example_request_def example_env_def example_admin_def findOne_def byEmail_def)

lemma findOne_None_iff: "findOne q db = None \<longleftrightarrow> (\<forall>u \<in> set db. \<not> q u)"
  by (auto simp: findOne_def find_None_iff)

lemma findOne_Some: "findOne q db = Some u \<Longrightarrow> u \<in> set db \<and> q u"
  by (auto simp: findOne_def find_Some_iff)

lemma save_accepts:
  assumes "requiredString n = Some n'" and "requiredString e = Some e'"
    and "requiredString p = Some p'" and "e' \<notin> email ` set db"
  shows "save env db n e p r perms =
           Inr (\<lparr>uid = newId env db, name = n', email = e', password = derive env p',
                 role = r, permissions = schemaPermissions perms\<rparr>,
                db @ [\<lparr>uid = newId env db, name = n', email = e', password = derive env p',
                 role = r, permissions = schemaPermissions perms\<rparr>])"
  using assms by (simp add: save_def Let_def)

lemma save_result:
  assumes "save env db n e p r perms = Inr (u, db')"
  shows "db' = db @ [u] \<and> role u = r \<and> permissions u = schemaPermissions perms"
  using assms by (auto simp: save_def Let_def split: option.splits if_splits)

lemma schemaPermissions_allTrue:
  "schemaPermissions (JObj [(''dashboard'', JBool True), (''collegeManagement'', JBool True),
                            (''contentEditing'', JBool True), (''viewData'', JBool True)]) = allTrue"
  by (simp add: schemaPermissions_def permission_names_def allTrue_def)

text \<open>
  C5, as amended. When a record with role \<^verbatim>\<open>admin\<close> exists, admin signup answers
  400 and leaves the store as it was. Otherwise, when the body gives a name, an email
  that no record uses and a secret, it adds one user with role \<^verbatim>\<open>admin\<close>, all four
  permission flags \<^verbatim>\<open>true\<close> and the derived secret, and answers 201 with a message
  and a token issued for that user; the response has no other field.
\<close>

theorem admin_signup_contract:
  "((\<exists>a \<in> set db. role a = ''admin'') \<longrightarrow>
      admin_signup env db req = (reply 400 ''Admin account already exists'', db))
   \<and> (\<not> (\<exists>a \<in> set db. role a = ''admin'')
        \<and> getProp (body req) ''name'' = Inr n \<and> requiredString n = Some n'
        \<and> getProp (body req) ''email'' = Inr e \<and> requiredString e = Some e'
        \<and> getProp (body req) ''password'' = Inr p \<and> requiredString p = Some p'
        \<and> e' \<notin> email ` set db \<longrightarrow>
      (\<exists>u. admin_signup env db req =
              (\<lparr>status = 201,
                json = [(''message'', JStr ''Admin account created successfully''),
                        (''token'', JStr (generateToken env u))],
                set_cookie = None\<rparr>, db @ [u])
           \<and> role u = ''admin'' \<and> permissions u = allTrue
           \<and> name u = n' \<and> email u = e' \<and> password u = derive env p'))"
proof (intro conjI impI)
  assume "\<exists>a \<in> set db. role a = ''admin''"
  then obtain a where "findOne (\<lambda>u. role u = ''admin'') db = Some a"
    using findOne_None_iff [of "\<lambda>u. role u = ''admin''" db] by fastforce
  then show "admin_signup env db req = (reply 400 ''Admin account already exists'', db)"
    by (simp add: admin_signup_def)
next
  assume h: "\<not> (\<exists>a \<in> set db. role a = ''admin'')
        \<and> getProp (body req) ''name'' = Inr n \<and> requiredString n = Some n'
        \<and> getProp (body req) ''email'' = Inr e \<and> requiredString e = Some e'
        \<and> getProp (body req) ''password'' = Inr p \<and> requiredString p = Some p'
        \<and> e' \<notin> email ` set db"
  then have none: "findOne (\<lambda>u. role u = ''admin'') db = None"
    by (simp add: findOne_None_iff)
  let ?u = "\<lparr>uid = newId env db, name = n', email = e', password = derive env p',
             role = ''admin'', permissions = allTrue\<rparr>"
  have "admin_signup env db req =
              (\<lparr>status = 201,
                json = [(''message'', JStr ''Admin account created successfully''),
                        (''token'', JStr (generateToken env ?u))],
                set_cookie = None\<rparr>, db @ [?u])"
    using h none by (simp add: admin_signup_def save_accepts schemaPermissions_allTrue)
  then show "\<exists>u. admin_signup env db req =
              (\<lparr>status = 201,
                json = [(''message'', JStr ''Admin account created successfully''),
                        (''token'', JStr (generateToken env u))],
                set_cookie = None\<rparr>, db @ [u])
           \<and> role u = ''admin'' \<and> permissions u = allTrue
           \<and> name u = n' \<and> email u = e' \<and> password u = derive env p'"
    by (intro exI [of _ ?u]) simp
qed

theorem admin_signup_contract_witness:
  "admin_signup example_env [example_admin] (example_request\<lparr>body := signup_body\<rparr>)
     = (reply 400 ''Admin account already exists'', [example_admin])
   \<and> (\<exists>u. admin_signup example_env [] (example_request\<lparr>body := signup_body\<rparr>) =
              (\<lparr>status = 201,
                json = [(''message'', JStr ''Admin account created successfully''),
                        (''token'', JStr (generateToken example_env u))],
                set_cookie = None\<rparr>, [u])
           \<and> role u = ''admin'' \<and> permissions u = allTrue
           \<and> name u = ''Admin'' \<and> email u = ''admin@example.com''
           \<and> password u = derive example_env ''Admin@123'')"
  using admin_signup_contract
          [of "[example_admin]" example_env "example_request\<lparr>body := signup_body\<rparr>"]
        admin_signup_contract
          [of "[]" example_env "example_request\<lparr>body := signup_body\<rparr>"
              "JStr ''Admin''" "''Admin''" "JStr ''admin@example.com''" "''admin@example.com''"
              "JStr ''Admin@123''" "''Admin@123''"]
  by (simp add: example_admin_def example_request_def signup_body_def requiredString_def)

text \<open>
  C5, as stated, fails: the response of a successful signup holds the message and the
  token only, and does not return the new user.
\<close>

theorem admin_signup_counterexample:
  "admin_signup example_env [] (example_request\<lparr>body := signup_body\<rparr>)
     = (\<lparr>status = 201,
         json = [(''message'', JStr ''Admin account created successfully''),
                 (''token'', JStr ''signed'')],
         set_cookie = None\<rparr>, [example_admin])
   \<and> \<not> returnsUser (fst (admin_signup example_env [] (example_request\<lparr>body := signup_body\<rparr>)))
         example_admin"
  by (simp add: admin_signup_def findOne_def example_request_def signup_body_def save_def
        requiredString_def example_env_def generateToken_def schemaPermissions_allTrue
        example_admin_def returnsUser_def Let_def)

text \<open>A successful login, by contrast, does return the user.\<close>

lemma login_returnsUser:
  "returnsUser (fst (login example_env [example_admin]
     (example_request\<lparr>body := JObj [(''email'', JStr ''admin@example.com''),
                                   (''password'', JStr ''Admin@123'')]\<rparr>))) example_admin"
  by (simp add: login_def findOne_def byEmail_def example_request_def example_env_def
        example_admin_def returnsUser_def generateToken_def Let_def)

section \<open>Permissions of a created user\<close>

lemma map_fst_schemaPermissions: "map fst (schemaPermissions v) = permission_names"
  by (simp add: schemaPermissions_def comp_def)

lemma map_of_tabulate:
  "k \<in> set ks \<Longrightarrow> map_of (map (\<lambda>k. (k, f k)) ks) k = Some (f k)"
  by (induction ks) auto

lemma map_of_schemaPermissions:
  assumes "k \<in> set permission_names"
  shows "map_of (schemaPermissions v) k =
           Some (case v of
                   JObj kvs \<Rightarrow> (case map_of kvs k of Some x \<Rightarrow> x | None \<Rightarrow> JBool False)
                 | _ \<Rightarrow> JBool False)"
  unfolding schemaPermissions_def using assms by (rule map_of_tabulate)

lemma status_reply [simp]: "status (reply c m) = c"
  by (simp add: reply_def)

lemma admin_signup_created:
  assumes "admin_signup env db req = (r, db')" and "status r = 201"
  shows "\<exists>u. db' = db @ [u] \<and> permissions u = allTrue"
proof -
  from assms obtain n e p u where "save env db n e p ''admin''
      (JObj [(''dashboard'', JBool True), (''collegeManagement'', JBool True),
             (''contentEditing'', JBool True), (''viewData'', JBool True)]) = Inr (u, db')"
    by (auto simp: admin_signup_def andThen_def catch500_def
             split: option.splits sum.splits js_error.splits prod.splits)
  from save_result [OF this] show ?thesis
    by (auto simp: schemaPermissions_allTrue)
qed

lemma create_sub_admin_created:
  assumes "create_sub_admin env db req = (r, db')" and "status r = 201"
  shows "\<exists>u perms. db' = db @ [u] \<and> getProp (body req) ''permissions'' = Inr perms
           \<and> permissions u = schemaPermissions (if truthy perms then perms else JObj [])"
proof -
  from assms obtain n e p perms u where
    "getProp (body req) ''permissions'' = Inr perms"
    "save env db n e p ''sub-admin'' (if truthy perms then perms else JObj []) = Inr (u, db')"
    by (auto simp: create_sub_admin_def andThen_def catch500_def
             split: option.splits sum.splits js_error.splits prod.splits)
  with save_result [OF this(2)] show ?thesis
    by auto
qed

lemma allTrue_flags: "k \<in> set permission_names \<Longrightarrow> map_of allTrue k = Some (JBool True)"
  by (auto simp: permission_names_def allTrue_def)

lemma unset_flag_false:
  assumes "k \<in> set permission_names" and "getProp b ''permissions'' = Inr perms"
    and "\<not> callerSets b k"
  shows "map_of (schemaPermissions (if truthy perms then perms else JObj [])) k
           = Some (JBool False)"
  using assms
  by (cases perms) (auto simp: map_of_schemaPermissions callerSets_def)

text \<open>
  C9. A user record created by admin signup or by sub-admin creation has a permissions
  record with exactly the four keys \<^verbatim>\<open>dashboard\<close>, \<^verbatim>\<open>collegeManagement\<close>,
  \<^verbatim>\<open>contentEditing\<close>, \<^verbatim>\<open>viewData\<close>, whatever the request body holds under
  \<^verbatim>\<open>permissions\<close>. After admin signup all four are \<^verbatim>\<open>true\<close>; after sub-admin
  creation every key that the caller did not set is \<^verbatim>\<open>false\<close>.
\<close>

theorem created_permissions_complete:
  "(admin_signup env db req = (r, db') \<and> status r = 201 \<longrightarrow>
      (\<exists>u. db' = db @ [u] \<and> map fst (permissions u) = permission_names
           \<and> (\<forall>k \<in> set permission_names. map_of (permissions u) k = Some (JBool True))))
   \<and> (create_sub_admin env db req = (r, db') \<and> status r = 201 \<longrightarrow>
      (\<exists>u. db' = db @ [u] \<and> map fst (permissions u) = permission_names
           \<and> (\<forall>k \<in> set permission_names.
                 \<not> callerSets (body req) k \<longrightarrow> map_of (permissions u) k = Some (JBool False))))"
proof (intro conjI impI)
  assume "admin_signup env db req = (r, db') \<and> status r = 201"
  then obtain u where "db' = db @ [u]" and "permissions u = allTrue"
    using admin_signup_created by blast
  then show "\<exists>u. db' = db @ [u] \<and> map fst (permissions u) = permission_names
           \<and> (\<forall>k \<in> set permission_names. map_of (permissions u) k = Some (JBool True))"
    using schemaPermissions_allTrue map_fst_schemaPermissions allTrue_flags by metis
next
  assume "create_sub_admin env db req = (r, db') \<and> status r = 201"
  then obtain u perms where u: "db' = db @ [u]"
    and p: "getProp (body req) ''permissions'' = Inr perms"
    and s: "permissions u = schemaPermissions (if truthy perms then perms else JObj [])"
    using create_sub_admin_created by blast
  have "map fst (permissions u) = permission_names"
    unfolding s by (rule map_fst_schemaPermissions)
  moreover have "\<forall>k \<in> set permission_names.
      \<not> callerSets (body req) k \<longrightarrow> map_of (permissions u) k = Some (JBool False)"
    unfolding s using unset_flag_false [OF _ p] by blast
  ultimately show "\<exists>u. db' = db @ [u] \<and> map fst (permissions u) = permission_names
           \<and> (\<forall>k \<in> set permission_names.
                 \<not> callerSets (body req) k \<longrightarrow> map_of (permissions u) k = Some (JBool False))"
    using u by blast
qed


lemma create_sub_admin_example:
  "create_sub_admin example_env [example_admin] (example_request\<lparr>body := sub_admin_body\<rparr>)
     = (\<lparr>status = 201,
         json = [(''message'', JStr ''Sub-admin created successfully''),
                 (''subAdmin'',
                  JObj [(''id'', JStr ''000000000000000000000002''), (''name'', JStr ''Sub''),
                        (''email'', JStr ''sub1@example.com''),
                        (''permissions'', JObj (permissions example_sub))])],
         set_cookie = None\<rparr>, [example_admin, example_sub])"
  by (simp add: create_sub_admin_def example_request_def sub_admin_body_def findOne_def
        byEmail_def example_admin_def save_def requiredString_def Let_def example_env_def
        schemaPermissions_def permission_names_def example_sub_def)

lemma admin_signup_example:
  "admin_signup example_env [] (example_request\<lparr>body := signup_body\<rparr>)
     = (\<lparr>status = 201,
         json = [(''message'', JStr ''Admin account created successfully''),
                 (''token'', JStr ''signed'')],
         set_cookie = None\<rparr>, [example_admin])"
  by (simp add: admin_signup_def findOne_def example_request_def signup_body_def save_def
        requiredString_def example_env_def generateToken_def schemaPermissions_allTrue
        example_admin_def Let_def)

theorem created_permissions_complete_witness:
  "(\<exists>u. [example_admin] = [] @ [u] \<and> map fst (permissions u) = permission_names
        \<and> map_of (permissions u) ''viewData'' = Some (JBool True))
   \<and> (\<exists>u. [example_admin, example_sub] = [example_admin] @ [u]
        \<and> map fst (permissions u) = permission_names
        \<and> map_of (permissions u) ''collegeManagement'' = Some (JBool False))"
proof -
  have k: "''viewData'' \<in> set permission_names" "''collegeManagement'' \<in> set permission_names"
    by (simp_all add: permission_names_def)
  have c: "\<not> callerSets (body (example_request\<lparr>body := sub_admin_body\<rparr>)) ''collegeManagement''"
    by (simp add: callerSets_def sub_admin_body_def)
  from created_permissions_complete
          [of example_env "[]" "example_request\<lparr>body := signup_body\<rparr>"
              "\<lparr>status = 201,
                json = [(''message'', JStr ''Admin account created successfully''),
                        (''token'', JStr ''signed'')],
                set_cookie = None\<rparr>" "[example_admin]"] admin_signup_example k(1)
  have 1: "\<exists>u. [example_admin] = [] @ [u] \<and> map fst (permissions u) = permission_names
        \<and> map_of (permissions u) ''viewData'' = Some (JBool True)"
    by simp
  from created_permissions_complete
          [of example_env "[example_admin]" "example_request\<lparr>body := sub_admin_body\<rparr>"
              "\<lparr>status = 201,
                json = [(''message'', JStr ''Sub-admin created successfully''),
                 (''subAdmin'',
                  JObj [(''id'', JStr ''000000000000000000000002''), (''name'', JStr ''Sub''),
                        (''email'', JStr ''sub1@example.com''),
                        (''permissions'', JObj (permissions example_sub))])],
                set_cookie = None\<rparr>" "[example_admin, example_sub]"]
       create_sub_admin_example k(2) c
  have 2: "\<exists>u. [example_admin, example_sub] = [example_admin] @ [u]
        \<and> map fst (permissions u) = permission_names
        \<and> map_of (permissions u) ''collegeManagement'' = Some (JBool False)"
    by simp
  from 1 2 show ?thesis by blast
qed

section \<open>Properties of sub-admin deletion and update\<close>


lemma findOne_first:
  "\<forall>x \<in> set xs. \<not> q x \<Longrightarrow> q u \<Longrightarrow> findOne q (xs @ u # ys) = Some u"
  by (induction xs) (auto simp: findOne_def)

lemma deleteFirst_split:
  "\<forall>x \<in> set xs. \<not> q x \<Longrightarrow> q u \<Longrightarrow> deleteFirst q (xs @ u # ys) = xs @ ys"
  by (induction xs) auto


lemma deleteFirst_none: "\<forall>x \<in> set db. \<not> q x \<Longrightarrow> deleteFirst q db = db"
  by (induction db) auto

lemma deleteFirst_keeps: "a \<in> set db \<Longrightarrow> \<not> q a \<Longrightarrow> a \<in> set (deleteFirst q db)"
  by (induction db) auto

lemma distinct_uid:
  assumes "distinct (map uid db)" and "a \<in> set db" and "u \<in> set db" and "uid u = uid a"
  shows "u = a"
  using assms by (meson distinct_map inj_onD)

lemma delete_sub_admin_cast:
  assumes "castObjectId env (params_id req) = Inr i"
  shows "delete_sub_admin env db req =
           (case findOne (byIdRole i ''sub-admin'') db of
              None \<Rightarrow> (reply 404 ''Sub-admin not found'', deleteFirst (byIdRole i ''sub-admin'') db)
            | Some u \<Rightarrow> (reply 200 ''Sub-admin deleted successfully'',
                         deleteFirst (byIdRole i ''sub-admin'') db))"
  using assms by (simp add: delete_sub_admin_def findOneAndDelete_def split: option.splits)

lemma delete_sub_admin_throws:
  assumes "castObjectId env (params_id req) = Inl (Error msg)"
  shows "delete_sub_admin env db req = (reply 500 msg, db)"
  using assms by (simp add: delete_sub_admin_def findOneAndDelete_def)

text \<open>
  C8, as amended. For a delete request whose id the store reads as an identifier:
  when no record has that identifier together with the role \<^verbatim>\<open>sub-admin\<close> the
  answer is 404 and the store stays as it was, and this is so for the identifier of
  the admin account (identifiers being unique); when such a record exists the first one
  is removed, every other record stays, and the answer is 200. No request removes a
  record with role \<^verbatim>\<open>admin\<close>. For an id that the store cannot read as an
  identifier the query throws, and the answer is 500 with the store as it was.
\<close>

theorem delete_sub_admin_contract:
  "(castObjectId env (params_id req) = Inr i
      \<and> \<not> (\<exists>u \<in> set db. uid u = i \<and> role u = ''sub-admin'') \<longrightarrow>
      delete_sub_admin env db req = (reply 404 ''Sub-admin not found'', db))
   \<and> (castObjectId env (params_id req) = Inr i
      \<and> distinct (map uid db) \<and> a \<in> set db \<and> role a = ''admin'' \<and> i = uid a \<longrightarrow>
      delete_sub_admin env db req = (reply 404 ''Sub-admin not found'', db))
   \<and> (a \<in> set db \<and> role a = ''admin'' \<longrightarrow> a \<in> set (snd (delete_sub_admin env db req)))
   \<and> (castObjectId env (params_id req) = Inr i
      \<and> db = xs @ u # ys \<and> uid u = i \<and> role u = ''sub-admin''
      \<and> (\<forall>x \<in> set xs. \<not> (uid x = i \<and> role x = ''sub-admin'')) \<longrightarrow>
      delete_sub_admin env db req = (reply 200 ''Sub-admin deleted successfully'', xs @ ys))
   \<and> (castObjectId env (params_id req) = Inl (Error msg) \<longrightarrow>
      delete_sub_admin env db req = (reply 500 msg, db))"
proof -
  let ?q = "byIdRole i ''sub-admin''"
  have none: "delete_sub_admin env db req = (reply 404 ''Sub-admin not found'', db)"
    if c: "castObjectId env (params_id req) = Inr i"
      and n: "\<not> (\<exists>u \<in> set db. uid u = i \<and> role u = ''sub-admin'')"
  proof -
    from n have n': "\<forall>x \<in> set db. \<not> ?q x" by (simp add: byIdRole_def)
    then have "findOne ?q db = None" by (simp add: findOne_None_iff)
    with n' show ?thesis
      by (simp add: delete_sub_admin_cast [OF c] deleteFirst_none)
  qed
  have admin_id: "delete_sub_admin env db req = (reply 404 ''Sub-admin not found'', db)"
    if h: "castObjectId env (params_id req) = Inr i
      \<and> distinct (map uid db) \<and> a \<in> set db \<and> role a = ''admin'' \<and> i = uid a"
  proof (rule none)
    from h show "castObjectId env (params_id req) = Inr i" by simp
    show "\<not> (\<exists>u \<in> set db. uid u = i \<and> role u = ''sub-admin'')"
    proof
      assume "\<exists>u \<in> set db. uid u = i \<and> role u = ''sub-admin''"
      then obtain u where "u \<in> set db" "uid u = uid a" "role u = ''sub-admin''"
        using h by auto
      with h distinct_uid [of db a u] show False by auto
    qed
  qed
  have keeps: "a \<in> set (snd (delete_sub_admin env db req))"
    if k: "a \<in> set db \<and> role a = ''admin''"
  proof (cases "castObjectId env (params_id req)")
    case (Inl err)
    then obtain m where "castObjectId env (params_id req) = Inl (Error m)"
      by (cases err) simp
    from delete_sub_admin_throws [OF this] k show ?thesis by simp
  next
    case (Inr j)
    from k have "\<not> byIdRole j ''sub-admin'' a" by (simp add: byIdRole_def)
    with k have "a \<in> set (deleteFirst (byIdRole j ''sub-admin'') db)"
      by (simp add: deleteFirst_keeps)
    then show ?thesis
      by (simp add: delete_sub_admin_cast [OF Inr] split: option.splits)
  qed
  have found: "delete_sub_admin env db req
                 = (reply 200 ''Sub-admin deleted successfully'', xs @ ys)"
    if f: "castObjectId env (params_id req) = Inr i
      \<and> db = xs @ u # ys \<and> uid u = i \<and> role u = ''sub-admin''
      \<and> (\<forall>x \<in> set xs. \<not> (uid x = i \<and> role x = ''sub-admin''))"
  proof -
    from f have c: "castObjectId env (params_id req) = Inr i" and d: "db = xs @ u # ys"
      and q: "?q u" and x: "\<forall>x \<in> set xs. \<not> ?q x"
      by (simp_all add: byIdRole_def)
    from x q have "findOne ?q db = Some u" and "deleteFirst ?q db = xs @ ys"
      unfolding d by (simp_all add: findOne_first deleteFirst_split)
    then show ?thesis
      by (simp add: delete_sub_admin_cast [OF c])
  qed
  from none admin_id keeps found delete_sub_admin_throws show ?thesis by blast
qed

theorem delete_sub_admin_contract_witness:
  "delete_sub_admin example_env [example_admin, example_sub]
       (example_request\<lparr>params_id := ''000000000000000000000003''\<rparr>)
     = (reply 404 ''Sub-admin not found'', [example_admin, example_sub])
   \<and> delete_sub_admin example_env [example_admin, example_sub]
       (example_request\<lparr>params_id := ''000000000000000000000001''\<rparr>)
     = (reply 404 ''Sub-admin not found'', [example_admin, example_sub])
   \<and> example_admin \<in> set (snd (delete_sub_admin example_env [example_admin, example_sub]
                                  (example_request\<lparr>params_id := ''000000000000000000000002''\<rparr>)))
   \<and> delete_sub_admin example_env [example_admin, example_sub]
       (example_request\<lparr>params_id := ''000000000000000000000002''\<rparr>)
     = (reply 200 ''Sub-admin deleted successfully'', [example_admin])
   \<and> delete_sub_admin example_env [example_admin, example_sub]
       (example_request\<lparr>params_id := ''iii''\<rparr>)
     = (reply 500 ''Cast to ObjectId failed'', [example_admin, example_sub])"
proof -
  let ?db = "[example_admin, example_sub]"
  have c: "castObjectId example_env (params_id (example_request\<lparr>params_id := ''000000000000000000000003''\<rparr>))
             = Inr ''000000000000000000000003''"
    "castObjectId example_env (params_id (example_request\<lparr>params_id := ''000000000000000000000001''\<rparr>))
             = Inr ''000000000000000000000001''"
    "castObjectId example_env (params_id (example_request\<lparr>params_id := ''000000000000000000000002''\<rparr>))
             = Inr ''000000000000000000000002''"
    "castObjectId example_env (params_id (example_request\<lparr>params_id := ''iii''\<rparr>))
             = Inl (Error ''Cast to ObjectId failed'')"
    by (simp_all add: example_env_def)
  have d: "distinct (map uid ?db)" and a: "example_admin \<in> set ?db"
    and r: "role example_admin = ''admin''" and i: "''000000000000000000000001'' = uid example_admin"
    by (simp_all add: example_admin_def example_sub_def)
  have n: "\<not> (\<exists>u \<in> set ?db. uid u = ''000000000000000000000003'' \<and> role u = ''sub-admin'')"
    by (simp add: example_admin_def example_sub_def)
  have f: "?db = [example_admin] @ example_sub # [] \<and> uid example_sub = ''000000000000000000000002''
      \<and> role example_sub = ''sub-admin''
      \<and> (\<forall>x \<in> set [example_admin]. \<not> (uid x = ''000000000000000000000002'' \<and> role x = ''sub-admin''))"
    by (simp add: example_admin_def example_sub_def)
  from delete_sub_admin_contract
         [of example_env "example_request\<lparr>params_id := ''000000000000000000000003''\<rparr>"
             "''000000000000000000000003''" ?db] c(1) n
  have 1: "delete_sub_admin example_env ?db
             (example_request\<lparr>params_id := ''000000000000000000000003''\<rparr>)
             = (reply 404 ''Sub-admin not found'', ?db)"
    by blast
  from delete_sub_admin_contract
         [of example_env "example_request\<lparr>params_id := ''000000000000000000000001''\<rparr>"
             "''000000000000000000000001''" ?db example_admin] c(2) d a r i
  have 2: "delete_sub_admin example_env ?db
             (example_request\<lparr>params_id := ''000000000000000000000001''\<rparr>)
             = (reply 404 ''Sub-admin not found'', ?db)"
    by blast
  from delete_sub_admin_contract
         [of example_env "example_request\<lparr>params_id := ''000000000000000000000002''\<rparr>"
             "''000000000000000000000002''" ?db example_admin "[example_admin]" example_sub "[]"]
       c(3) a r f
  have 3: "example_admin \<in> set (snd (delete_sub_admin example_env ?db
             (example_request\<lparr>params_id := ''000000000000000000000002''\<rparr>)))"
    and 4: "delete_sub_admin example_env ?db
             (example_request\<lparr>params_id := ''000000000000000000000002''\<rparr>)
             = (reply 200 ''Sub-admin deleted successfully'', [example_admin] @ [])"
    by blast+
  from delete_sub_admin_contract
         [of example_env "example_request\<lparr>params_id := ''iii''\<rparr>" _ ?db _ _ _ _
             "''Cast to ObjectId failed''"] c(4)
  have 5: "delete_sub_admin example_env ?db (example_request\<lparr>params_id := ''iii''\<rparr>)
             = (reply 500 ''Cast to ObjectId failed'', ?db)"
    by blast
  from 1 2 3 4 5 show ?thesis by simp
qed

text \<open>
  C8, as stated, fails: no record has the id \<^verbatim>\<open>iii\<close>, yet the answer to deleting
  it is 500, not 404.
\<close>

theorem delete_sub_admin_counterexample:
  "\<not> (\<exists>u \<in> set [example_admin, example_sub]. uid u = ''iii'' \<and> role u = ''sub-admin'')
   \<and> delete_sub_admin example_env [example_admin, example_sub]
        (example_request\<lparr>params_id := ''iii''\<rparr>)
       = (reply 500 ''Cast to ObjectId failed'', [example_admin, example_sub])
   \<and> status (fst (delete_sub_admin example_env [example_admin, example_sub]
                    (example_request\<lparr>params_id := ''iii''\<rparr>))) \<noteq> 404"
  by (simp add: delete_sub_admin_def findOneAndDelete_def example_env_def example_request_def
        example_admin_def example_sub_def)


lemma setString_string: "s \<noteq> [] \<Longrightarrow> setString env (JStr s) old = Inr s"
  by (simp add: setString_def)















end
